theory Spec2Isabelle
  imports Complex_Main
begin

section \<open>Python values used by the fraud-detection core\<close>

text \<open>
  A Python float is a real number or one of the three non-finite values. The
  operations of this section are exact on finite values and follow IEEE 754 on the
  others; the rounding of a result is added where the drift engine computes.
  Comparisons with \<open>NaN\<close> are false.
\<close>

datatype pyfloat = Fin real | PosInf | NegInf | NaN

fun fl_less :: "pyfloat \<Rightarrow> pyfloat \<Rightarrow> bool" where
  "fl_less NaN _ = False"
| "fl_less _ NaN = False"
| "fl_less (Fin a) (Fin b) = (a < b)"
| "fl_less (Fin a) PosInf = True"
| "fl_less (Fin a) NegInf = False"
| "fl_less PosInf _ = False"
| "fl_less NegInf (Fin b) = True"
| "fl_less NegInf PosInf = True"
| "fl_less NegInf NegInf = False"

definition fl_greater :: "pyfloat \<Rightarrow> pyfloat \<Rightarrow> bool" where
  "fl_greater a b = fl_less b a"

fun fl_eq :: "pyfloat \<Rightarrow> pyfloat \<Rightarrow> bool" where
  "fl_eq NaN _ = False"
| "fl_eq _ NaN = False"
| "fl_eq a b = (a = b)"

fun fl_add :: "pyfloat \<Rightarrow> pyfloat \<Rightarrow> pyfloat" where
  "fl_add NaN _ = NaN"
| "fl_add _ NaN = NaN"
| "fl_add (Fin a) (Fin b) = Fin (a + b)"
| "fl_add PosInf NegInf = NaN"
| "fl_add NegInf PosInf = NaN"
| "fl_add PosInf _ = PosInf"
| "fl_add NegInf _ = NegInf"
| "fl_add (Fin a) PosInf = PosInf"
| "fl_add (Fin a) NegInf = NegInf"

fun fl_neg :: "pyfloat \<Rightarrow> pyfloat" where
  "fl_neg (Fin a) = Fin (- a)"
| "fl_neg PosInf = NegInf"
| "fl_neg NegInf = PosInf"
| "fl_neg NaN = NaN"

definition fl_sub :: "pyfloat \<Rightarrow> pyfloat \<Rightarrow> pyfloat" where
  "fl_sub a b = fl_add a (fl_neg b)"

fun fl_abs :: "pyfloat \<Rightarrow> pyfloat" where
  "fl_abs (Fin a) = Fin \<bar>a\<bar>"
| "fl_abs PosInf = PosInf"
| "fl_abs NegInf = PosInf"
| "fl_abs NaN = NaN"

text \<open>The sign of an infinite product or quotient; signed zeros are not modelled.\<close>

definition signed_inf :: "bool \<Rightarrow> pyfloat" where
  "signed_inf positive = (if positive then PosInf else NegInf)"

fun fl_mul :: "pyfloat \<Rightarrow> pyfloat \<Rightarrow> pyfloat" where
  "fl_mul NaN _ = NaN"
| "fl_mul _ NaN = NaN"
| "fl_mul (Fin a) (Fin b) = Fin (a * b)"
| "fl_mul (Fin a) PosInf = (if a = 0 then NaN else signed_inf (0 < a))"
| "fl_mul (Fin a) NegInf = (if a = 0 then NaN else signed_inf (a < 0))"
| "fl_mul PosInf (Fin b) = (if b = 0 then NaN else signed_inf (0 < b))"
| "fl_mul NegInf (Fin b) = (if b = 0 then NaN else signed_inf (b < 0))"
| "fl_mul PosInf PosInf = PosInf"
| "fl_mul PosInf NegInf = NegInf"
| "fl_mul NegInf PosInf = NegInf"
| "fl_mul NegInf NegInf = PosInf"

text \<open>
  Division as numpy performs it on float arrays: a zero divisor gives \<open>NaN\<close> for a zero
  dividend and an infinity otherwise (with a warning, not an exception).
\<close>

fun fl_div :: "pyfloat \<Rightarrow> pyfloat \<Rightarrow> pyfloat" where
  "fl_div NaN _ = NaN"
| "fl_div _ NaN = NaN"
| "fl_div (Fin a) (Fin b) =
     (if b = 0 then (if a = 0 then NaN else signed_inf (0 < a)) else Fin (a / b))"
| "fl_div (Fin a) PosInf = Fin 0"
| "fl_div (Fin a) NegInf = Fin 0"
| "fl_div PosInf (Fin b) = signed_inf (0 \<le> b)"
| "fl_div NegInf (Fin b) = signed_inf (b < 0)"
| "fl_div PosInf PosInf = NaN"
| "fl_div PosInf NegInf = NaN"
| "fl_div NegInf PosInf = NaN"
| "fl_div NegInf NegInf = NaN"

text \<open>
  Exceptions are values: a function that can raise returns \<open>error + 'a\<close>. An
  \<open>HTTPException\<close> carries its status code, detail and headers.
\<close>

datatype error =
    IndexError
  | KeyError
  | ValueError
  | TypeError
  | AttributeError
  | OverflowError
  | ValidationError
  | HTTPException nat string "(string \<times> string) list"

text \<open>
  A Python dictionary keeps its keys in insertion order: an association list with
  distinct keys. Assigning to an existing key keeps the key's position.
\<close>

fun dict_set :: "('k \<times> 'v) list \<Rightarrow> 'k \<Rightarrow> 'v \<Rightarrow> ('k \<times> 'v) list" where
  "dict_set [] k v = [(k, v)]"
| "dict_set ((k', v') # kvs) k v =
     (if k' = k then (k, v) # kvs else (k', v') # dict_set kvs k v)"

text \<open>\<open>str(n)\<close> for a non-negative integer: its decimal digits.\<close>

definition digit_char :: "nat \<Rightarrow> char" where
  "digit_char d = ''0123456789'' ! d"

fun str_nat :: "nat \<Rightarrow> string" where
  "str_nat n = (if n < 10 then [digit_char n] else str_nat (n div 10) @ [digit_char (n mod 10)])"

text \<open>\<open>str.lower\<close>, on ASCII letters.\<close>

definition lower_char :: "char \<Rightarrow> char" where
  "lower_char c =
     (case map_of (zip ''ABCDEFGHIJKLMNOPQRSTUVWXYZ'' ''abcdefghijklmnopqrstuvwxyz'') c of
        Some l \<Rightarrow> l
      | None \<Rightarrow> c)"

definition lower :: "string \<Rightarrow> string" where
  "lower s = map lower_char s"

text \<open>
  The process environment, and \<open>os.getenv(name, default)\<close>.
\<close>

type_synonym environ = "string \<rightharpoonup> string"

definition getenv :: "environ \<Rightarrow> string \<Rightarrow> string \<Rightarrow> string" where
  "getenv env name dflt = (case env name of Some v \<Rightarrow> v | None \<Rightarrow> dflt)"

text \<open>The truth value of an optional string: \<open>None\<close> and the empty string are false.\<close>

definition truthy_str :: "string option \<Rightarrow> bool" where
  "truthy_str s = (case s of None \<Rightarrow> False | Some v \<Rightarrow> v \<noteq> [])"

section \<open>Drift detection (\<open>src/monitoring/drift_detection.py\<close>)\<close>

record FraudDriftDetector =
  threshold_psi :: real
  threshold_ks :: real

text \<open>\<open>FraudDriftDetector.__init__\<close> with its default thresholds.\<close>

definition FraudDriftDetector_init :: "real option \<Rightarrow> real option \<Rightarrow> FraudDriftDetector" where
  "FraudDriftDetector_init tpsi tks =
     \<lparr> threshold_psi = (case tpsi of None \<Rightarrow> 0.2 | Some t \<Rightarrow> t),
       threshold_ks = (case tks of None \<Rightarrow> 0.05 | Some t \<Rightarrow> t) \<rparr>"

text \<open>\<open>FraudDriftDetector._classify_drift_severity\<close>\<close>

definition classify_drift_severity :: "FraudDriftDetector \<Rightarrow> pyfloat \<Rightarrow> string" where
  "classify_drift_severity self psi =
     (if fl_less psi (Fin 0.1) then ''none''
      else if fl_less psi (Fin 0.2) then ''moderate''
      else ''significant'')"

subsection \<open>Floating-point arithmetic\<close>

text \<open>
  numpy computes in IEEE doubles. An arithmetic operation on finite operands rounds its
  exact result, which may overflow to an infinity; the rounding \<open>rnd\<close>, the library's
  logarithm of a positive finite number \<open>flog\<close> and the summation \<open>np.sum\<close> of an
  array are parameters of the model. A decimal literal of the source is the rounding of
  its value.
\<close>

record fpu =
  rnd :: "real \<Rightarrow> pyfloat"
  flog :: "real \<Rightarrow> pyfloat"
  fsum :: "pyfloat list \<Rightarrow> pyfloat"

fun rounded :: "fpu \<Rightarrow> pyfloat \<Rightarrow> pyfloat" where
  "rounded fp (Fin x) = rnd fp x"
| "rounded fp PosInf = PosInf"
| "rounded fp NegInf = NegInf"
| "rounded fp NaN = NaN"

definition r_add :: "fpu \<Rightarrow> pyfloat \<Rightarrow> pyfloat \<Rightarrow> pyfloat" where
  "r_add fp a b = rounded fp (fl_add a b)"

definition r_sub :: "fpu \<Rightarrow> pyfloat \<Rightarrow> pyfloat \<Rightarrow> pyfloat" where
  "r_sub fp a b = rounded fp (fl_sub a b)"

definition r_mul :: "fpu \<Rightarrow> pyfloat \<Rightarrow> pyfloat \<Rightarrow> pyfloat" where
  "r_mul fp a b = rounded fp (fl_mul a b)"

definition r_div :: "fpu \<Rightarrow> pyfloat \<Rightarrow> pyfloat \<Rightarrow> pyfloat" where
  "r_div fp a b = rounded fp (fl_div a b)"

text \<open>\<open>np.log\<close>: minus infinity at zero and \<open>NaN\<close> on negative arguments.\<close>

fun r_log :: "fpu \<Rightarrow> pyfloat \<Rightarrow> pyfloat" where
  "r_log fp (Fin a) = (if 0 < a then flog fp a else if a = 0 then NegInf else NaN)"
| "r_log fp PosInf = PosInf"
| "r_log fp NegInf = NaN"
| "r_log fp NaN = NaN"

definition lit :: "fpu \<Rightarrow> real \<Rightarrow> pyfloat" where
  "lit fp x = rnd fp x"

definition fl_le :: "pyfloat \<Rightarrow> pyfloat \<Rightarrow> bool" where
  "fl_le a b = (a \<noteq> NaN \<and> b \<noteq> NaN \<and> \<not> fl_less b a)"

subsection \<open>numpy operations used by the PSI computation\<close>

text \<open>
  \<open>np.linspace(start, stop, num)\<close> with the end point included: the step is the
  rounded quotient, every point is \<open>k * step + start\<close> in rounded operations (for a zero
  step, \<open>k / div * delta + start\<close>), and the last point is set to \<open>stop\<close>.
\<close>

definition linspace :: "fpu \<Rightarrow> real \<Rightarrow> real \<Rightarrow> nat \<Rightarrow> pyfloat list" where
  "linspace fp start stop num =
     (let dv = num - 1;
          delta = r_sub fp (Fin stop) (Fin start);
          step = r_div fp delta (Fin (real dv));
          y = map (\<lambda>k. if 0 < dv
                        then (if fl_eq step (Fin 0)
                              then r_mul fp (r_div fp (Fin (real k)) (Fin (real dv))) delta
                              else r_mul fp (Fin (real k)) step)
                        else r_mul fp (Fin (real k)) delta) [0..<num];
          y = map (\<lambda>v. r_add fp v (Fin start)) y
      in if 1 < num then y[num - 1 := Fin stop] else y)"

text \<open>
  The interpolation of \<open>np.percentile\<close> between two neighbouring order statistics:
  \<open>a + (b - a) * t\<close>, and \<open>b - (b - a) * (1 - t)\<close> from \<open>t = 0.5\<close> on, every
  operation rounded.
\<close>

definition lerp :: "fpu \<Rightarrow> pyfloat \<Rightarrow> pyfloat \<Rightarrow> pyfloat \<Rightarrow> pyfloat" where
  "lerp fp a b t =
     (let diff_b_a = r_sub fp b a;
          lerp_interpolation = r_add fp a (r_mul fp diff_b_a t)
      in if fl_le (Fin 0.5) t then r_sub fp b (r_mul fp diff_b_a (r_sub fp (Fin 1) t))
         else lerp_interpolation)"

text \<open>Python indexing of a non-empty list: a negative index counts from the end.\<close>

definition py_nth :: "real list \<Rightarrow> int \<Rightarrow> real" where
  "py_nth xs i = (if i < 0 then xs ! nat (int (length xs) + i) else xs ! nat i)"

text \<open>
  One quantile \<open>q\<close> (a fraction) of a sorted, non-empty float sample with the
  default linear method. The virtual index is \<open>(n - 1) * q\<close>; the neighbours are
  the elements at its floor and after it, both the last element when the virtual index
  is at or beyond the last index, both the first when it is below zero, and both the
  last when it is not a number. The weight is the virtual index minus the index taken
  for the lower neighbour.
\<close>

definition quantile_at :: "fpu \<Rightarrow> real list \<Rightarrow> pyfloat \<Rightarrow> pyfloat" where
  "quantile_at fp srt q =
     (let n = length srt;
          virtual_index = r_mul fp (Fin (real (n - 1))) q;
          above = fl_le (Fin (real (n - 1))) virtual_index;
          below = fl_less virtual_index (Fin 0);
          floor_index = (case virtual_index of Fin v \<Rightarrow> \<lfloor>v\<rfloor> | _ \<Rightarrow> - 1);
          previous_index = (if below then 0 else if above then - 1 else floor_index);
          next_index = (if below then 0 else if above \<or> virtual_index = NaN then - 1
                        else floor_index + 1);
          gamma = r_sub fp virtual_index (Fin (real_of_int previous_index))
      in lerp fp (Fin (py_nth srt previous_index)) (Fin (py_nth srt next_index)) gamma)"

text \<open>
  \<open>np.percentile(a, q)\<close>: the percentages are divided by 100; a fraction outside
  \<open>[0, 1]\<close> is a \<open>ValueError\<close>; an empty sample has no order statistic to index and
  raises \<open>IndexError\<close>.
\<close>

definition percentile :: "fpu \<Rightarrow> real list \<Rightarrow> pyfloat list \<Rightarrow> error + pyfloat list" where
  "percentile fp a qs =
     (let q = map (\<lambda>p. r_div fp p (Fin 100)) qs
      in if list_ex (\<lambda>x. \<not> (fl_le (Fin 0) x \<and> fl_le x (Fin 1))) q then Inl ValueError
         else if a = [] then Inl IndexError
         else Inr (map (quantile_at fp (sort a)) q))"

text \<open>
  \<open>np.histogram(a, bins=edges)[0]\<close> with explicit edges: the edges must not decrease
  (\<open>ValueError\<close> otherwise; a comparison with \<open>NaN\<close> is false). The counts are the
  differences of the cumulative counts that \<open>searchsorted\<close> gives: the values below
  each edge, for the last edge the values up to it; \<open>NaN\<close> sorts after every value.
\<close>

definition searchsorted_left :: "real list \<Rightarrow> pyfloat \<Rightarrow> nat" where
  "searchsorted_left a e =
     (if e = NaN then length a else length (filter (\<lambda>x. fl_less (Fin x) e) a))"

definition searchsorted_right :: "real list \<Rightarrow> pyfloat \<Rightarrow> nat" where
  "searchsorted_right a e =
     (if e = NaN then length a else length (filter (\<lambda>x. fl_le (Fin x) e) a))"

definition histogram :: "real list \<Rightarrow> pyfloat list \<Rightarrow> error + int list" where
  "histogram a bin_edges =
     (if list_ex (\<lambda>i. fl_greater (bin_edges ! i) (bin_edges ! Suc i)) [0..<length bin_edges - 1]
      then Inl ValueError
      else
        (let cum_n = map (searchsorted_left a) (butlast bin_edges) @
                     map (searchsorted_right a) (if bin_edges = [] then [] else [last bin_edges])
         in Inr (map (\<lambda>i. int (cum_n ! Suc i) - int (cum_n ! i)) [0..<length cum_n - 1])))"

subsection \<open>\<open>FraudDriftDetector.calculate_psi\<close>\<close>

text \<open>
  The break points: the reference sample's percentiles at \<open>bins + 1\<close> evenly spaced
  percentages, with the first replaced by minus infinity and the last by plus infinity.
\<close>

definition psi_breakpoints :: "fpu \<Rightarrow> real list \<Rightarrow> nat \<Rightarrow> error + pyfloat list" where
  "psi_breakpoints fp reference bins =
     (case percentile fp reference (linspace fp 0 100 (bins + 1)) of
        Inl e \<Rightarrow> Inl e
      | Inr breakpoints \<Rightarrow>
          let breakpoints = breakpoints[0 := NegInf];
              breakpoints = breakpoints[length breakpoints - 1 := PosInf]
          in Inr breakpoints)"

text \<open>
  The binned distribution of one sample: bin counts divided by the sample size, with
  every zero fraction replaced by the floor \<open>0.0001\<close>.
\<close>

definition binned_percents :: "fpu \<Rightarrow> real list \<Rightarrow> pyfloat list \<Rightarrow> error + pyfloat list" where
  "binned_percents fp a breakpoints =
     (case histogram a breakpoints of
        Inl e \<Rightarrow> Inl e
      | Inr counts \<Rightarrow>
          let percents = map (\<lambda>c. r_div fp (Fin (real_of_int c)) (Fin (real (length a)))) counts
          in Inr (map (\<lambda>p. if fl_eq p (Fin 0) then lit fp 0.0001 else p) percents))"

definition psi_term :: "fpu \<Rightarrow> pyfloat \<times> pyfloat \<Rightarrow> pyfloat" where
  "psi_term fp cr =
     (case cr of (c, r) \<Rightarrow> r_mul fp (r_sub fp c r) (r_log fp (r_div fp c r)))"

definition calculate_psi ::
  "fpu \<Rightarrow> FraudDriftDetector \<Rightarrow> real list \<Rightarrow> real list \<Rightarrow> nat \<Rightarrow> error + pyfloat" where
  "calculate_psi fp self reference current bins =
     (case psi_breakpoints fp reference bins of
        Inl e \<Rightarrow> Inl e
      | Inr breakpoints \<Rightarrow>
          (case binned_percents fp reference breakpoints of
             Inl e \<Rightarrow> Inl e
           | Inr ref_percents \<Rightarrow>
               (case binned_percents fp current breakpoints of
                  Inl e \<Rightarrow> Inl e
                | Inr cur_percents \<Rightarrow>
                    Inr (fsum fp (map (psi_term fp) (zip cur_percents ref_percents))))))"

text \<open>The default \<open>bins=10\<close> of \<open>calculate_psi\<close>, which every caller uses.\<close>

definition default_bins :: nat where
  "default_bins = 10"

subsection \<open>\<open>FraudDriftDetector.calculate_ks_test\<close>\<close>

text \<open>
  The statistical tests of \<open>scipy.stats\<close> are external: they are parameters of the
  model, and each may raise.
\<close>

record scipy_stats =
  ks_2samp :: "real list \<Rightarrow> real list \<Rightarrow> error + pyfloat \<times> pyfloat"
  chisquare :: "pyfloat list \<Rightarrow> pyfloat list \<Rightarrow> error + pyfloat \<times> pyfloat"

definition calculate_ks_test ::
  "scipy_stats \<Rightarrow> FraudDriftDetector \<Rightarrow> real list \<Rightarrow> real list \<Rightarrow> error + pyfloat \<times> pyfloat" where
  "calculate_ks_test stats self reference current =
     (case ks_2samp stats reference current of
        Inl e \<Rightarrow> Inl e
      | Inr (ks_stat, p_value) \<Rightarrow> Inr (ks_stat, p_value))"

subsection \<open>\<open>FraudDriftDetector.detect_feature_drift\<close>\<close>

text \<open>
  A data frame maps a column name to the column's values; a missing value is \<open>None\<close>.
  \<open>dropna().values\<close> keeps the values that are present.
\<close>

type_synonym DataFrame = "string \<rightharpoonup> real option list"

definition dropna :: "real option list \<Rightarrow> real list" where
  "dropna col = concat (map (\<lambda>v. case v of None \<Rightarrow> [] | Some x \<Rightarrow> [x]) col)"

text \<open>One entry of the drift report; the fields are the keys of the source's dictionary.\<close>

record DriftFinding =
  psi :: pyfloat
  ks_statistic :: pyfloat
  ks_p_value :: pyfloat
  drift_detected :: bool
  drift_severity :: string

type_synonym drift_report = "(string \<times> DriftFinding) list"

text \<open>
  The body of the loop for one feature present in both frames, after null-dropping: PSI,
  then the KS test, then the finding. Neither call is guarded.
\<close>

definition feature_finding ::
  "fpu \<Rightarrow> scipy_stats \<Rightarrow> FraudDriftDetector \<Rightarrow> real list \<Rightarrow> real list \<Rightarrow>
   error + DriftFinding" where
  "feature_finding fp stats self ref_values cur_values =
     (case calculate_psi fp self ref_values cur_values default_bins of
        Inl e \<Rightarrow> Inl e
      | Inr psi' \<Rightarrow>
          (case calculate_ks_test stats self ref_values cur_values of
             Inl e \<Rightarrow> Inl e
           | Inr (ks_stat, p_value) \<Rightarrow>
               Inr \<lparr> psi = psi',
                     ks_statistic = ks_stat,
                     ks_p_value = p_value,
                     drift_detected =
                       (fl_greater psi' (Fin (threshold_psi self)) \<or>
                        fl_less p_value (Fin (threshold_ks self))),
                     drift_severity = classify_drift_severity self psi' \<rparr>))"

text \<open>
  The loop over the requested features, with the report built so far. A feature missing
  from either frame is skipped; an exception of the body leaves the loop and the function.
\<close>

fun detect_feature_drift_loop ::
  "fpu \<Rightarrow> scipy_stats \<Rightarrow> FraudDriftDetector \<Rightarrow> DataFrame \<Rightarrow> DataFrame \<Rightarrow> string list \<Rightarrow>
   drift_report \<Rightarrow> error + drift_report" where
  "detect_feature_drift_loop fp stats self reference_data current_data [] report = Inr report"
| "detect_feature_drift_loop fp stats self reference_data current_data (feature # features) report =
     (case reference_data feature of
        None \<Rightarrow>
          detect_feature_drift_loop fp stats self reference_data current_data features report
      | Some ref_col \<Rightarrow>
          (case current_data feature of
             None \<Rightarrow>
               detect_feature_drift_loop fp stats self reference_data current_data features report
           | Some cur_col \<Rightarrow>
               (case feature_finding fp stats self (dropna ref_col) (dropna cur_col) of
                  Inl e \<Rightarrow> Inl e
                | Inr finding \<Rightarrow>
                    detect_feature_drift_loop fp stats self reference_data current_data features
                      (dict_set report feature finding))))"

definition detect_feature_drift ::
  "fpu \<Rightarrow> scipy_stats \<Rightarrow> FraudDriftDetector \<Rightarrow> DataFrame \<Rightarrow> DataFrame \<Rightarrow> string list \<Rightarrow>
   error + drift_report" where
  "detect_feature_drift fp stats self reference_data current_data features =
     detect_feature_drift_loop fp stats self reference_data current_data features []"

subsection \<open>\<open>FraudDriftDetector.detect_target_drift\<close>\<close>

text \<open>
  The returned dictionary. Its keys \<open>psi\<close> and \<open>drift_detected\<close> are the fields
  \<open>target_psi\<close> and \<open>target_drift_detected\<close> here, the names being taken by the
  feature finding.
\<close>

record TargetDriftFinding =
  reference_fraud_rate :: pyfloat
  current_fraud_rate :: pyfloat
  fraud_rate_change :: pyfloat
  target_psi :: pyfloat
  chi2_statistic :: pyfloat
  chi2_p_value :: pyfloat
  target_drift_detected :: bool

text \<open>
  \<open>(predictions > 0.5).mean()\<close>: the count of the scores above 0.5 divided by the
  number of scores; the mean of an empty array is \<open>NaN\<close>.
\<close>

definition fraud_rate :: "fpu \<Rightarrow> real list \<Rightarrow> pyfloat" where
  "fraud_rate fp predictions =
     r_div fp (Fin (real (length (filter (\<lambda>p. 0.5 < p) predictions))))
              (Fin (real (length predictions)))"

definition detect_target_drift ::
  "fpu \<Rightarrow> scipy_stats \<Rightarrow> FraudDriftDetector \<Rightarrow> real list \<Rightarrow> real list \<Rightarrow>
   error + TargetDriftFinding" where
  "detect_target_drift fp stats self reference_predictions current_predictions =
     (let ref_fraud_rate = fraud_rate fp reference_predictions;
          cur_fraud_rate = fraud_rate fp current_predictions;
          rate_change =
            (if fl_greater ref_fraud_rate (Fin 0)
             then r_div fp (fl_abs (r_sub fp cur_fraud_rate ref_fraud_rate)) ref_fraud_rate
             else Fin 0)
      in case calculate_psi fp self reference_predictions current_predictions default_bins of
           Inl e \<Rightarrow> Inl e
         | Inr psi' \<Rightarrow>
             (case chisquare stats [cur_fraud_rate, r_sub fp (Fin 1) cur_fraud_rate]
                                  [ref_fraud_rate, r_sub fp (Fin 1) ref_fraud_rate] of
                Inl e \<Rightarrow> Inl e
              | Inr (chi2, p_value) \<Rightarrow>
                  Inr \<lparr> reference_fraud_rate = ref_fraud_rate,
                        current_fraud_rate = cur_fraud_rate,
                        fraud_rate_change = rate_change,
                        target_psi = psi',
                        chi2_statistic = chi2,
                        chi2_p_value = p_value,
                        target_drift_detected =
                          (fl_greater psi' (Fin (threshold_psi self)) \<or>
                           fl_greater rate_change (lit fp 0.3)) \<rparr>))"

subsection \<open>\<open>FraudDriftDetector.generate_drift_summary\<close>\<close>

text \<open>
  The features with drift, in the order of the report, and the slice \<open>[:5]\<close> of them
  that the summary lists.
\<close>

definition drift_features :: "drift_report \<Rightarrow> string list" where
  "drift_features report = map fst (filter (\<lambda>(f, metrics). drift_detected metrics) report)"

definition critical_features :: "drift_report \<Rightarrow> string list" where
  "critical_features report = take 5 (drift_features report)"

definition newline :: string where
  "newline = [CHR 0x0A]"

text \<open>
  The loop that appends one line per listed feature. The format \<open>{psi:.4f}\<close> is
  Python's; it is the parameter \<open>format_4f\<close>.
\<close>

fun summary_lines ::
  "(pyfloat \<Rightarrow> string) \<Rightarrow> drift_report \<Rightarrow> string list \<Rightarrow> string \<Rightarrow> error + string" where
  "summary_lines format_4f report [] summary = Inr summary"
| "summary_lines format_4f report (feature # features) summary =
     (case map_of report feature of
        None \<Rightarrow> Inl KeyError
      | Some metrics \<Rightarrow>
          summary_lines format_4f report features
            (summary @ ''    - '' @ feature @ '': PSI = '' @ format_4f (psi metrics) @ newline))"

definition generate_drift_summary ::
  "(pyfloat \<Rightarrow> string) \<Rightarrow> FraudDriftDetector \<Rightarrow> drift_report \<Rightarrow> error + string" where
  "generate_drift_summary format_4f self report =
     (let total_features = length report;
          summary = ''Drift Detection Summary:'' @ newline;
          summary = summary @ ''  Total features monitored: '' @ str_nat total_features @ newline;
          summary = summary @ ''  Features with drift: '' @ str_nat (length (drift_features report))
                      @ newline
      in if drift_features report \<noteq> []
         then summary_lines format_4f report (critical_features report)
                (summary @ newline @ ''  Critical features:'' @ newline)
         else Inr summary)"

text \<open>
  The summary's selection as the specification words it: the drifted features ordered
  by PSI descending, and the first five of those. The sort is stable.
\<close>

fun insert_by_psi_desc :: "string \<times> DriftFinding \<Rightarrow> drift_report \<Rightarrow> drift_report" where
  "insert_by_psi_desc e [] = [e]"
| "insert_by_psi_desc e (x # xs) =
     (if fl_less (psi (snd e)) (psi (snd x)) then x # insert_by_psi_desc e xs else e # x # xs)"

definition spec_top5_by_psi :: "drift_report \<Rightarrow> string list" where
  "spec_top5_by_psi report =
     take 5 (map fst (foldr insert_by_psi_desc
                        (filter (\<lambda>(f, metrics). drift_detected metrics) report) []))"

section \<open>Authentication (\<open>api/auth.py\<close>)\<close>

text \<open>
  The values \<open>json.loads\<close> produces and \<open>json.dumps\<close> accepts. A dictionary is an
  insertion-ordered association list.
\<close>

datatype pyval =
    JNull
  | JBool bool
  | JInt int
  | JFloat pyfloat
  | JStr string
  | JList "pyval list"
  | JDict "(string \<times> pyval) list"

type_synonym pydict = "(string \<times> pyval) list"

text \<open>Python's truth value of an object, as \<open>not username\<close> tests it.\<close>

fun truthy :: "pyval \<Rightarrow> bool" where
  "truthy JNull = False"
| "truthy (JBool b) = b"
| "truthy (JInt i) = (i \<noteq> 0)"
| "truthy (JFloat f) = (f \<noteq> Fin 0)"
| "truthy (JStr s) = (s \<noteq> [])"
| "truthy (JList l) = (l \<noteq> [])"
| "truthy (JDict d) = (d \<noteq> [])"

text \<open>\<open>d.get(key, default)\<close>\<close>

definition dict_get :: "pydict \<Rightarrow> string \<Rightarrow> pyval \<Rightarrow> pyval" where
  "dict_get d key dflt = (case map_of d key of Some v \<Rightarrow> v | None \<Rightarrow> dflt)"

text \<open>
  The library functions the token code calls are parameters: the hex digest of SHA-256,
  URL-safe base64 in both directions, JSON in both directions, the validation of a
  string field by pydantic, \<open>str.title\<close>, and \<open>datetime.timestamp\<close>, which gives
  the float nearest to an exact time in seconds. A decoder returns \<open>None\<close> where the
  library raises.
\<close>

record pylib =
  sha256_hexdigest :: "string \<Rightarrow> string"
  urlsafe_b64encode :: "string \<Rightarrow> string"
  urlsafe_b64decode :: "string \<Rightarrow> string option"
  json_dumps :: "pyval \<Rightarrow> string"
  json_loads :: "string \<Rightarrow> pyval option"
  validate_str :: "pyval \<Rightarrow> string option"
  str_title :: "string \<Rightarrow> string"
  timestamp_float :: "real \<Rightarrow> real"

definition ACCESS_TOKEN_EXPIRE_MINUTES :: real where
  "ACCESS_TOKEN_EXPIRE_MINUTES = 30"

record TokenData =
  username :: "string option"
  scopes :: "pyval list"

record User =
  username :: string
  email :: "string option"
  full_name :: "string option"
  disabled :: "bool option"

text \<open>\<open>_sign\<close>: the digest of the payload followed by the secret key.\<close>

definition sign :: "pylib \<Rightarrow> string \<Rightarrow> string \<Rightarrow> string" where
  "sign lib SECRET_KEY payload = sha256_hexdigest lib (payload @ SECRET_KEY)"

subsection \<open>\<open>create_access_token\<close>\<close>

text \<open>
  Dictionaries are objects: the store is a list of dictionaries and a reference is an
  index into it. \<open>dict.copy\<close> allocates a new object with the same entries;
  \<open>dict.update\<close> assigns the given entries, in order, to the object referred to.
\<close>

type_synonym heap = "pydict list"

definition dict_copy :: "heap \<Rightarrow> nat \<Rightarrow> nat \<times> heap" where
  "dict_copy h r = (length h, h @ [h ! r])"

definition dict_update :: "heap \<Rightarrow> nat \<Rightarrow> pydict \<Rightarrow> heap" where
  "dict_update h r other = h[r := foldl (\<lambda>d kv. dict_set d (fst kv) (snd kv)) (h ! r) other]"

text \<open>
  Times are seconds since the epoch, a \<open>timedelta\<close> is a number of seconds.
  \<open>datetime + timedelta\<close> raises \<open>OverflowError\<close> outside the years 1 to 9999.
\<close>

definition datetime_add :: "real \<Rightarrow> real \<Rightarrow> error + real" where
  "datetime_add t delta =
     (if t + delta < - 62135596800 \<or> 253402300800 \<le> t + delta then Inl OverflowError
      else Inr (t + delta))"

text \<open>\<open>int(x)\<close> of a float truncates towards zero.\<close>

definition py_int :: "real \<Rightarrow> int" where
  "py_int x = (if 0 \<le> x then \<lfloor>x\<rfloor> else \<lceil>x\<rceil>)"

text \<open>
  \<open>create_access_token(data, expires_delta)\<close>, where \<open>now\<close> is the value of
  \<open>datetime.now(timezone.utc)\<close> in seconds since the epoch; \<open>data\<close> is a reference
  into the store, which is returned with the result. The expiry is the truncation of the
  float \<open>expire.timestamp()\<close>.
  \<open>expires_delta or timedelta(minutes=...)\<close> takes the default for \<open>None\<close> and for
  the zero \<open>timedelta\<close>, which is false.
\<close>

definition create_access_token ::
  "pylib \<Rightarrow> string \<Rightarrow> real \<Rightarrow> heap \<Rightarrow> nat \<Rightarrow> real option \<Rightarrow> (error + string) \<times> heap" where
  "create_access_token lib SECRET_KEY now h data expires_delta =
     (case dict_copy h data of
        (to_encode, h1) \<Rightarrow>
          (let delta = (case expires_delta of
                          None \<Rightarrow> 60 * ACCESS_TOKEN_EXPIRE_MINUTES
                        | Some d \<Rightarrow> if d = 0 then 60 * ACCESS_TOKEN_EXPIRE_MINUTES else d)
           in case datetime_add now delta of
                Inl e \<Rightarrow> (Inl e, h1)
              | Inr expire \<Rightarrow>
                  (let h2 = dict_update h1 to_encode
                              [(''exp'', JInt (py_int (timestamp_float lib expire)))];
                       payload = urlsafe_b64encode lib (json_dumps lib (JDict (h2 ! to_encode)));
                       signature = sign lib SECRET_KEY payload
                   in (Inr (payload @ ''.'' @ signature), h2))))"

subsection \<open>\<open>decode_access_token\<close>\<close>

text \<open>\<open>s.split(sep)\<close> for a one-character separator: always at least one segment.\<close>

fun split_on :: "char \<Rightarrow> string \<Rightarrow> string list" where
  "split_on sep [] = [[]]"
| "split_on sep (c # cs) =
     (if c = sep then [] # split_on sep cs
      else (case split_on sep cs of
              [] \<Rightarrow> [[c]]
            | seg # segs \<Rightarrow> (c # seg) # segs))"

definition credentials_exception :: error where
  "credentials_exception =
     HTTPException 401 ''Could not validate credentials'' [(''WWW-Authenticate'', ''Bearer'')]"

text \<open>
  \<open>time.time() > exp_ts\<close>: defined against a number (a boolean counts as 0 or 1), a
  \<open>TypeError\<close> against anything else.
\<close>

fun time_greater :: "real \<Rightarrow> pyval \<Rightarrow> error + bool" where
  "time_greater now (JInt i) = Inr (real_of_int i < now)"
| "time_greater now (JFloat f) = Inr (fl_less f (Fin now))"
| "time_greater now (JBool b) = Inr ((if b then 1 else 0) < now)"
| "time_greater now JNull = Inl TypeError"
| "time_greater now (JStr s) = Inl TypeError"
| "time_greater now (JList l) = Inl TypeError"
| "time_greater now (JDict d) = Inl TypeError"

text \<open>
  The claims of a decoded payload: \<open>.get\<close> exists on a dictionary only.
\<close>

definition check_claims :: "pylib \<Rightarrow> real \<Rightarrow> pyval \<Rightarrow> error + TokenData" where
  "check_claims lib now payload =
     (case payload of
        JDict d \<Rightarrow>
          (let username' = dict_get d ''sub'' JNull;
               exp_ts = dict_get d ''exp'' (JInt 0)
           in if \<not> truthy username' then Inl credentials_exception
              else (case time_greater now exp_ts of
                      Inl e \<Rightarrow> Inl e
                    | Inr expired \<Rightarrow>
                        if expired then Inl credentials_exception
                        else (case validate_str lib username' of
                                None \<Rightarrow> Inl ValidationError
                              | Some u \<Rightarrow> Inr \<lparr> TokenData.username = Some u, scopes = [] \<rparr>)))
      | _ \<Rightarrow> Inl AttributeError)"

text \<open>The body of the \<open>try\<close> block.\<close>

definition decode_access_token_try :: "pylib \<Rightarrow> string \<Rightarrow> real \<Rightarrow> string \<Rightarrow> error + TokenData" where
  "decode_access_token_try lib SECRET_KEY now token =
     (case split_on CHR ''.'' token of
        [payload_b64, signature] \<Rightarrow>
          if signature \<noteq> sign lib SECRET_KEY payload_b64 then Inl credentials_exception
          else (case urlsafe_b64decode lib payload_b64 of
                  None \<Rightarrow> Inl ValueError
                | Some raw \<Rightarrow>
                    (case json_loads lib raw of
                       None \<Rightarrow> Inl ValueError
                     | Some payload \<Rightarrow> check_claims lib now payload))
      | _ \<Rightarrow> Inl ValueError)"

text \<open>\<open>except Exception: raise credentials_exception\<close>\<close>

definition decode_access_token :: "pylib \<Rightarrow> string \<Rightarrow> real \<Rightarrow> string \<Rightarrow> error + TokenData" where
  "decode_access_token lib SECRET_KEY now token =
     (case decode_access_token_try lib SECRET_KEY now token of
        Inl e \<Rightarrow> Inl credentials_exception
      | Inr token_data \<Rightarrow> Inr token_data)"

subsection \<open>\<open>get_current_user\<close>, \<open>verify_api_key\<close>, \<open>get_current_user_optional\<close>\<close>

record HTTPAuthorizationCredentials =
  scheme :: string
  credentials :: string

definition not_authenticated :: error where
  "not_authenticated = HTTPException 403 ''Not authenticated'' [(''WWW-Authenticate'', ''Bearer'')]"

definition get_current_user ::
  "pylib \<Rightarrow> string \<Rightarrow> real \<Rightarrow> HTTPAuthorizationCredentials option \<Rightarrow> error + User" where
  "get_current_user lib SECRET_KEY now creds =
     (case creds of
        None \<Rightarrow> Inl not_authenticated
      | Some c \<Rightarrow>
          if credentials c = [] then Inl not_authenticated
          else (case decode_access_token lib SECRET_KEY now (credentials c) of
                  Inl e \<Rightarrow> Inl e
                | Inr token_data \<Rightarrow>
                    (case TokenData.username token_data of
                       None \<Rightarrow> Inl AttributeError
                     | Some u \<Rightarrow>
                         Inr \<lparr> username = u,
                               email = Some (u @ ''@example.com''),
                               full_name = Some (str_title lib u),
                               disabled = Some False \<rparr>)))"

definition invalid_api_key :: error where
  "invalid_api_key =
     HTTPException 401 ''Invalid or missing API Key'' [(''WWW-Authenticate'', ''API-Key'')]"

definition verify_api_key :: "environ \<Rightarrow> string option \<Rightarrow> error + bool" where
  "verify_api_key env api_key =
     (if \<not> (lower (getenv env ''ENABLE_API_KEY_AUTH'' ''false'') = ''true'') then Inr True
      else (let valid_api_key = env ''API_KEY''
            in if \<not> truthy_str valid_api_key then Inr True
               else if api_key = None \<or> api_key \<noteq> valid_api_key then Inl invalid_api_key
               else Inr True))"

fun is_HTTPException :: "error \<Rightarrow> bool" where
  "is_HTTPException (HTTPException code detail headers) = True"
| "is_HTTPException _ = False"

definition api_key_user :: User where
  "api_key_user =
     \<lparr> username = ''api_key_user'', email = Some ''api@example.com'',
       full_name = None, disabled = None \<rparr>"

text \<open>The second half of \<open>get_current_user_optional\<close>: the API key.\<close>

definition try_api_key :: "environ \<Rightarrow> string option \<Rightarrow> error + User option" where
  "try_api_key env api_key =
     (if truthy_str api_key
      then (case verify_api_key env api_key of
              Inr ok \<Rightarrow> Inr (Some api_key_user)
            | Inl e \<Rightarrow> if is_HTTPException e then Inr None else Inl e)
      else Inr None)"

definition get_current_user_optional ::
  "pylib \<Rightarrow> string \<Rightarrow> real \<Rightarrow> environ \<Rightarrow> HTTPAuthorizationCredentials option \<Rightarrow>
   string option \<Rightarrow> error + User option" where
  "get_current_user_optional lib SECRET_KEY now env creds api_key =
     (case creds of
        None \<Rightarrow> try_api_key env api_key
      | Some c \<Rightarrow>
          (case get_current_user lib SECRET_KEY now creds of
             Inr user \<Rightarrow> Inr (Some user)
           | Inl e \<Rightarrow> if is_HTTPException e then try_api_key env api_key else Inl e))"

section \<open>Alerting (\<open>src/monitoring/alerts.py\<close>)\<close>

datatype AlertSeverity = INFO | WARNING | ERROR | CRITICAL

datatype AlertChannel = SLACK | TEAMS | EMAIL | WEBHOOK

record Alert =
  alert_title :: string
  alert_message :: string
  alert_severity :: AlertSeverity
  alert_timestamp :: "string option"
  alert_metrics :: "pydict option"
  alert_metadata :: "pydict option"

text \<open>\<open>Alert.__post_init__\<close> fills a missing time stamp with the formatted clock.\<close>

definition Alert_post_init :: "string \<Rightarrow> Alert \<Rightarrow> Alert" where
  "Alert_post_init now_text a =
     (if alert_timestamp a = None then a\<lparr> alert_timestamp := Some now_text \<rparr> else a)"

record AlertManager =
  slack_enabled :: bool
  teams_enabled :: bool
  email_enabled :: bool
  slack_webhook :: "string option"
  teams_webhook :: "string option"

text \<open>\<open>AlertManager.__init__\<close> reads the environment once.\<close>

definition AlertManager_init :: "environ \<Rightarrow> AlertManager" where
  "AlertManager_init env =
     \<lparr> slack_enabled = (lower (getenv env ''SLACK_ENABLED'' ''false'') = ''true''),
       teams_enabled = (lower (getenv env ''TEAMS_ENABLED'' ''false'') = ''true''),
       email_enabled = (lower (getenv env ''EMAIL_ENABLED'' ''false'') = ''true''),
       slack_webhook = env ''SLACK_WEBHOOK_URL'',
       teams_webhook = env ''TEAMS_WEBHOOK_URL'' \<rparr>"

text \<open>
  The outside world of a delivery: whether the provider of a channel accepts an alert
  (an exception of the network call counts as a refusal, the senders catch it), whether
  \<open>int\<close> parses a port number, and the clock as text. The deliveries attempted are
  recorded in a log, the state the senders change.
\<close>

record world =
  accepts :: "AlertChannel \<Rightarrow> Alert \<Rightarrow> bool"
  int_parses :: "string \<Rightarrow> bool"
  clock_text :: string

type_synonym delivery_log = "(AlertChannel \<times> Alert) list"

definition send_slack :: "world \<Rightarrow> AlertManager \<Rightarrow> Alert \<Rightarrow> delivery_log \<Rightarrow> bool \<times> delivery_log" where
  "send_slack w self alert dlog = (accepts w SLACK alert, dlog @ [(SLACK, alert)])"

definition send_teams :: "world \<Rightarrow> AlertManager \<Rightarrow> Alert \<Rightarrow> delivery_log \<Rightarrow> bool \<times> delivery_log" where
  "send_teams w self alert dlog = (accepts w TEAMS alert, dlog @ [(TEAMS, alert)])"

text \<open>
  \<open>_send_email\<close> returns \<open>False\<close> without a delivery when the port does not parse or
  one of the four settings is missing or empty.
\<close>

definition send_email ::
  "world \<Rightarrow> environ \<Rightarrow> AlertManager \<Rightarrow> Alert \<Rightarrow> delivery_log \<Rightarrow> bool \<times> delivery_log" where
  "send_email w env self alert dlog =
     (if (case env ''SMTP_PORT'' of None \<Rightarrow> False | Some port \<Rightarrow> \<not> int_parses w port)
      then (False, dlog)
      else if \<not> (truthy_str (env ''SMTP_USERNAME'') \<and> truthy_str (env ''SMTP_PASSWORD'') \<and>
                 truthy_str (env ''ALERT_EMAIL_FROM'') \<and> truthy_str (env ''ALERT_EMAIL_TO''))
      then (False, dlog)
      else (accepts w EMAIL alert, dlog @ [(EMAIL, alert)]))"

text \<open>\<open>AlertManager.send_alert\<close>: the result dictionary and the log after the call.\<close>

definition send_alert ::
  "world \<Rightarrow> environ \<Rightarrow> AlertManager \<Rightarrow> string \<Rightarrow> string \<Rightarrow> AlertSeverity \<Rightarrow>
   pydict option \<Rightarrow> pydict option \<Rightarrow> delivery_log \<Rightarrow> (AlertChannel \<times> bool) list \<times> delivery_log" where
  "send_alert w env self title message severity metrics metadata dlog0 =
     (let alert = Alert_post_init (clock_text w)
                    \<lparr> alert_title = title, alert_message = message, alert_severity = severity,
                      alert_timestamp = None, alert_metrics = metrics,
                      alert_metadata = metadata \<rparr>;
          results = [];
          (results, dlog1) =
            (if slack_enabled self \<and> truthy_str (slack_webhook self)
             then (case send_slack w self alert dlog0 of
                     (ok, l) \<Rightarrow> (dict_set results SLACK ok, l))
             else (results, dlog0));
          (results, dlog2) =
            (if teams_enabled self \<and> truthy_str (teams_webhook self)
             then (case send_teams w self alert dlog1 of
                     (ok, l) \<Rightarrow> (dict_set results TEAMS ok, l))
             else (results, dlog1));
          (results, dlog3) =
            (if email_enabled self
             then (case send_email w env self alert dlog2 of
                     (ok, l) \<Rightarrow> (dict_set results EMAIL ok, l))
             else (results, dlog2))
      in (results, dlog3))"

section \<open>Auxiliary notions of the proofs\<close>

text \<open>
  What the proofs use of the floating-point unit, each a property of IEEE double
  arithmetic with rounding to nearest: rounding is monotone; the integers up to
  \<open>2\<^sup>5\<^sup>3\<close> in magnitude and the powers of two from \<open>2\<^sup>-\<^sup>1\<^sup>0\<^sup>2\<^sup>2\<close> to
  \<open>2\<^sup>1\<^sup>0\<^sup>2\<^sup>3\<close>, with either sign, are doubles and round to themselves; the logarithm of
  a positive double is finite, non-negative from 1 on and non-positive up to 1; a sum of
  non-negative terms is non-negative, and zero exactly when every term is zero.
\<close>

definition ieee_like :: "fpu \<Rightarrow> bool" where
  "ieee_like fp \<longleftrightarrow>
     (\<forall>x y. x \<le> y \<longrightarrow> fl_le (rnd fp x) (rnd fp y)) \<and>
     (\<forall>k::int. \<bar>k\<bar> \<le> 2 ^ 53 \<longrightarrow> rnd fp (real_of_int k) = Fin (real_of_int k)) \<and>
     (\<forall>k::nat. k \<le> 1023 \<longrightarrow> rnd fp (2 ^ k) = Fin (2 ^ k) \<and> rnd fp (- (2 ^ k)) = Fin (- (2 ^ k))) \<and>
     (\<forall>k::nat. k \<le> 1022 \<longrightarrow> rnd fp (1 / 2 ^ k) = Fin (1 / 2 ^ k)) \<and>
     (\<forall>x. 1 \<le> x \<longrightarrow> (\<exists>l. flog fp x = Fin l \<and> 0 \<le> l)) \<and>
     (\<forall>x. 0 < x \<and> x \<le> 1 \<longrightarrow> (\<exists>l. flog fp x = Fin l \<and> l \<le> 0)) \<and>
     (\<forall>xs. (\<forall>x \<in> set xs. fl_le (Fin 0) x) \<longrightarrow>
           fl_le (Fin 0) (fsum fp xs) \<and>
           (fsum fp xs = Fin 0 \<longleftrightarrow> (\<forall>x \<in> set xs. x = Fin 0)))"

text \<open>
  Two floating-point units for the examples. The first computes without rounding error
  or overflow. The second overflows as doubles do, to an infinity from \<open>2\<^sup>1\<^sup>0\<^sup>2\<^sup>4\<close> on,
  and is exact below. Both add the terms of a sum from the right.
\<close>

definition exact_fpu :: fpu where
  "exact_fpu = \<lparr> rnd = Fin, flog = (\<lambda>x. Fin (ln x)),
                 fsum = (\<lambda>xs. foldr fl_add xs (Fin 0)) \<rparr>"

definition overflow_fpu :: fpu where
  "overflow_fpu =
     \<lparr> rnd = (\<lambda>x. if 2 ^ 1024 \<le> x then PosInf else if x \<le> - (2 ^ 1024) then NegInf else Fin x),
       flog = (\<lambda>x. Fin (ln x)),
       fsum = (\<lambda>xs. foldr fl_add xs (Fin 0)) \<rparr>"

text \<open>The fraction of the scores strictly greater than 0.5, as an exact number.\<close>

definition spec_fraud_rate :: "real list \<Rightarrow> real" where
  "spec_fraud_rate predictions =
     real (length (filter (\<lambda>p. 0.5 < p) predictions)) / real (length predictions)"

text \<open>
  A stand-in for \<open>scipy.stats\<close> at the concrete inputs of the examples below: both
  tests return fixed values, the KS test \<open>NaN\<close> on an empty sample.
\<close>

definition stub_stats :: scipy_stats where
  "stub_stats =
     \<lparr> ks_2samp = (\<lambda>a b. if a = [] \<or> b = [] then Inr (NaN, NaN) else Inr (Fin 0, Fin 1)),
       chisquare = (\<lambda>obs exp. Inr (Fin 0, Fin 1)) \<rparr>"

text \<open>
  A feature is present when both frames have its column; its finding is the loop body
  applied to the two columns without their missing values.
\<close>

definition present :: "DataFrame \<Rightarrow> DataFrame \<Rightarrow> string \<Rightarrow> bool" where
  "present reference_data current_data feature =
     (reference_data feature \<noteq> None \<and> current_data feature \<noteq> None)"

definition finding_of ::
  "fpu \<Rightarrow> scipy_stats \<Rightarrow> FraudDriftDetector \<Rightarrow> DataFrame \<Rightarrow> DataFrame \<Rightarrow> string \<Rightarrow>
   error + DriftFinding" where
  "finding_of fp stats self reference_data current_data feature =
     feature_finding fp stats self (dropna (the (reference_data feature)))
       (dropna (the (current_data feature)))"

text \<open>
  Two small frames: the reference column \<open>amount\<close> holds missing values only, and
  neither frame has a column \<open>merchant\<close>.
\<close>

definition example_reference :: DataFrame where
  "example_reference = map_of [(''amount'', [None, None]), (''hour'', [Some 1, Some 2])]"

definition example_current :: DataFrame where
  "example_current = map_of [(''amount'', [Some 5]), (''hour'', [Some 2, None, Some 3])]"

text \<open>
  Python's format \<open>.4f\<close> on an exact value: the nearest multiple of \<open>0.0001\<close>, ties
  to even, with the sign of a negative value kept.
\<close>

definition round_half_even :: "real \<Rightarrow> nat" where
  "round_half_even y =
     (let f = nat \<lfloor>y\<rfloor>
      in if y - real f < 1 / 2 then f
         else if 1 / 2 < y - real f then f + 1
         else if even f then f else f + 1)"

fun format_4f :: "pyfloat \<Rightarrow> string" where
  "format_4f (Fin x) =
     (let n = round_half_even (\<bar>x\<bar> * 10000); m = n mod 10000
      in (if x < 0 then ''-'' else '''') @ str_nat (n div 10000) @ ''.'' @
         [digit_char (m div 1000), digit_char (m div 100 mod 10),
          digit_char (m div 10 mod 10), digit_char (m mod 10)])"
| "format_4f PosInf = ''inf''"
| "format_4f NegInf = ''-inf''"
| "format_4f NaN = ''nan''"

text \<open>The line of the summary for one listed feature.\<close>

definition feature_line :: "(pyfloat \<Rightarrow> string) \<Rightarrow> drift_report \<Rightarrow> string \<Rightarrow> string" where
  "feature_line fmt report feature =
     ''    - '' @ feature @ '': PSI = '' @ fmt (psi (the (map_of report feature))) @ newline"

text \<open>A report of six features, all with drift, in ascending order of PSI.\<close>

definition example_finding :: "real \<Rightarrow> DriftFinding" where
  "example_finding p =
     \<lparr> psi = Fin p, ks_statistic = Fin 0.5, ks_p_value = Fin 0.01, drift_detected = True,
       drift_severity = ''significant'' \<rparr>"

definition example_report :: drift_report where
  "example_report =
     [(''v1'', example_finding 0.21), (''v2'', example_finding 0.25),
      (''v3'', example_finding 0.3), (''v4'', example_finding 0.4),
      (''v5'', example_finding 0.5), (''v6'', example_finding 0.9)]"

text \<open>
  A stand-in for the libraries at the concrete tokens of the examples below: the digest
  is the decimal length of its input, the base64 coding is the identity, JSON is a table
  of the two claim sets the examples issue, a string field accepts strings only, and
  the times of the examples are floats as they stand.
\<close>

definition stub_json_table :: "(string \<times> pyval) list" where
  "stub_json_table =
     [(''{sub:alice,exp:2800}'', JDict [(''sub'', JStr ''alice''), (''exp'', JInt 2800)]),
      (''{sub:alice,exp:1000}'', JDict [(''sub'', JStr ''alice''), (''exp'', JInt 1000)])]"

definition stub_lib :: pylib where
  "stub_lib =
     \<lparr> sha256_hexdigest = (\<lambda>s. str_nat (length s)),
       urlsafe_b64encode = (\<lambda>s. s),
       urlsafe_b64decode = (\<lambda>s. Some s),
       json_dumps = (\<lambda>v. case find (\<lambda>e. snd e = v) stub_json_table of
                             Some e \<Rightarrow> fst e
                           | None \<Rightarrow> ''null''),
       json_loads = map_of stub_json_table,
       validate_str = (\<lambda>v. case v of JStr s \<Rightarrow> Some s | _ \<Rightarrow> None),
       str_title = (\<lambda>s. s),
       timestamp_float = (\<lambda>t. t) \<rparr>"

text \<open>
  The claim set a token is issued with, and what the round trip needs of the libraries
  at that claim set: JSON and base64 decode what they encoded, and neither the base64
  text nor the hex digest contains the separator.
\<close>

definition issued_claims :: "pylib \<Rightarrow> pydict \<Rightarrow> real \<Rightarrow> pyval" where
  "issued_claims lib d expire =
     JDict (dict_set d ''exp'' (JInt (py_int (timestamp_float lib expire))))"

definition codec_faithful :: "pylib \<Rightarrow> string \<Rightarrow> pyval \<Rightarrow> bool" where
  "codec_faithful lib SECRET_KEY claims =
     (json_loads lib (json_dumps lib claims) = Some claims \<and>
      urlsafe_b64decode lib (urlsafe_b64encode lib (json_dumps lib claims)) =
        Some (json_dumps lib claims) \<and>
      CHR ''.'' \<notin> set (urlsafe_b64encode lib (json_dumps lib claims)) \<and>
      CHR ''.'' \<notin> set (sign lib SECRET_KEY (urlsafe_b64encode lib (json_dumps lib claims))))"

text \<open>
  A world in which every provider accepts every alert and every port parses, and an
  environment that enables Slack with a webhook and email, and leaves Teams disabled.
\<close>

definition stub_world :: world where
  "stub_world = \<lparr> accepts = (\<lambda>channel alert. True), int_parses = (\<lambda>s. True),
                  clock_text = ''2026-01-01 00:00:00'' \<rparr>"

definition example_env :: environ where
  "example_env =
     map_of [(''SLACK_ENABLED'', ''True''), (''SLACK_WEBHOOK_URL'', ''https://hooks.example/T1''),
             (''EMAIL_ENABLED'', ''true''), (''TEAMS_WEBHOOK_URL'', ''https://teams.example/T2'')]"

section \<open>Properties of the drift engine\<close>

subsection \<open>Severity classification\<close>

text \<open>
  C1. Drift severity is a step function of PSI alone: for every detector and every real
  PSI value \<open>x\<close> the classifier returns "none" below 0.1, "moderate" from 0.1 up to but not
  including 0.2, and "significant" from 0.2 on; at the boundaries 0.1 is "moderate" and
  0.2 is "significant".
\<close>

theorem classify_drift_severity_step:
  "(x < 0.1 \<longrightarrow> classify_drift_severity self (Fin x) = ''none'') \<and>
   (0.1 \<le> x \<and> x < 0.2 \<longrightarrow> classify_drift_severity self (Fin x) = ''moderate'') \<and>
   (0.2 \<le> x \<longrightarrow> classify_drift_severity self (Fin x) = ''significant'') \<and>
   classify_drift_severity self (Fin 0.1) = ''moderate'' \<and>
   classify_drift_severity self (Fin 0.2) = ''significant'' \<and>
   classify_drift_severity self (Fin x) = classify_drift_severity self' (Fin x)"
  by (simp add: classify_drift_severity_def)

theorem classify_drift_severity_step_witness:
  "classify_drift_severity (FraudDriftDetector_init None None) (Fin 0.05) = ''none'' \<and>
   classify_drift_severity (FraudDriftDetector_init None None) (Fin 0.15) = ''moderate'' \<and>
   classify_drift_severity (FraudDriftDetector_init None None) (Fin 0.25) = ''significant''"
  using classify_drift_severity_step [of "0.05" "FraudDriftDetector_init None None"]
    classify_drift_severity_step [of "0.15" "FraudDriftDetector_init None None"]
    classify_drift_severity_step [of "0.25" "FraudDriftDetector_init None None"]
  by simp

subsection \<open>Dictionaries\<close>

lemma map_of_dict_set: "map_of (dict_set d k v) = (map_of d)(k \<mapsto> v)"
  by (induction d) (auto simp: fun_eq_iff)

lemma keys_dict_set: "fst ` set (dict_set d k v) = insert k (fst ` set d)"
proof (induction d)
  case Nil
  then show ?case by simp
next
  case (Cons a d)
  then show ?case by (cases a) (simp add: insert_commute)
qed

subsection \<open>Report summary\<close>

lemma summary_lines_ok:
  assumes "set fs \<subseteq> fst ` set report"
  shows "summary_lines fmt report fs summary =
           Inr (summary @ concat (map (feature_line fmt report) fs))"
  using assms
proof (induction fs arbitrary: summary)
  case Nil
  then show ?case by simp
next
  case (Cons f fs)
  then have "f \<in> fst ` set report" by simp
  then obtain m where m: "map_of report f = Some m"
    by (metis domIff dom_map_of_conv_image_fst not_Some_eq)
  have "set fs \<subseteq> fst ` set report" using Cons.prems by simp
  from Cons.IH[OF this] m show ?case by (simp add: feature_line_def)
qed

lemma drift_features_keys: "set (drift_features report) \<subseteq> fst ` set report"
  by (auto simp: drift_features_def)

lemma critical_features_keys: "set (critical_features report) \<subseteq> fst ` set report"
  using drift_features_keys[of report] set_take_subset[of 5 "drift_features report"]
  by (auto simp: critical_features_def)

text \<open>
  What the summary holds for every drift report: the total number of monitored features,
  the number of features with drift and, when there is drift, one line for each of the
  first five features with drift in the order of the report (all of them when there are
  at most five), with its PSI.
\<close>

theorem generate_drift_summary_lists_first_five:
  "generate_drift_summary fmt self report =
     Inr (''Drift Detection Summary:'' @ newline @
          ''  Total features monitored: '' @ str_nat (length report) @ newline @
          ''  Features with drift: '' @ str_nat (length (drift_features report)) @ newline @
          (if drift_features report = [] then []
           else newline @ ''  Critical features:'' @ newline @
                concat (map (feature_line fmt report) (critical_features report)))) \<and>
   critical_features report = take 5 (drift_features report) \<and>
   length (critical_features report) = min 5 (length (drift_features report)) \<and>
   (\<forall>f \<in> set (critical_features report). \<exists>m. (f, m) \<in> set report \<and> drift_detected m) \<and>
   (length (drift_features report) \<le> 5 \<longrightarrow> critical_features report = drift_features report)"
proof -
  have 1: "generate_drift_summary fmt self report =
     Inr (''Drift Detection Summary:'' @ newline @
          ''  Total features monitored: '' @ str_nat (length report) @ newline @
          ''  Features with drift: '' @ str_nat (length (drift_features report)) @ newline @
          (if drift_features report = [] then []
           else newline @ ''  Critical features:'' @ newline @
                concat (map (feature_line fmt report) (critical_features report))))"
    unfolding generate_drift_summary_def Let_def
    by (simp only: summary_lines_ok[OF critical_features_keys] append_assoc if_distrib
          append_Nil2 split: if_splits) simp
  have 2: "\<forall>f \<in> set (critical_features report). \<exists>m. (f, m) \<in> set report \<and> drift_detected m"
  proof
    fix f assume "f \<in> set (critical_features report)"
    then have "f \<in> set (drift_features report)"
      unfolding critical_features_def by (rule in_set_takeD)
    then show "\<exists>m. (f, m) \<in> set report \<and> drift_detected m"
      by (auto simp: drift_features_def)
  qed
  show ?thesis using 1 2 by (simp add: critical_features_def min_def)
qed

text \<open>
  C8. The summary is to list up to five features with drift, the top ones by PSI in
  descending order; the slice is commented \<open>Top 5\<close> in the source. The code takes
  the first five in the order of the report: of six features with drift in ascending
  order of PSI it lists the five with the lowest PSI, in ascending order, and leaves out
  the feature with the highest PSI, where the top five by PSI are \<open>v6\<close> to \<open>v2\<close>.
\<close>

theorem generate_drift_summary_at_six_features:
  "generate_drift_summary format_4f (FraudDriftDetector_init None None) example_report =
     Inr (''Drift Detection Summary:'' @ newline @
          ''  Total features monitored: 6'' @ newline @
          ''  Features with drift: 6'' @ newline @ newline @
          ''  Critical features:'' @ newline @
          ''    - v1: PSI = 0.2100'' @ newline @ ''    - v2: PSI = 0.2500'' @ newline @
          ''    - v3: PSI = 0.3000'' @ newline @ ''    - v4: PSI = 0.4000'' @ newline @
          ''    - v5: PSI = 0.5000'' @ newline) \<and>
   critical_features example_report = [''v1'', ''v2'', ''v3'', ''v4'', ''v5''] \<and>
   spec_top5_by_psi example_report = [''v6'', ''v5'', ''v4'', ''v3'', ''v2''] \<and>
   critical_features example_report \<noteq> spec_top5_by_psi example_report"
  by (simp add: generate_drift_summary_def critical_features_def drift_features_def
      spec_top5_by_psi_def example_report_def example_finding_def round_half_even_def
      digit_char_def Let_def newline_def)

theorem generate_drift_summary_lists_first_five_witness:
  "(\<exists>s. generate_drift_summary format_4f (FraudDriftDetector_init None None) example_report = Inr s) \<and>
   length (critical_features example_report) = 5 \<and>
   length (drift_features example_report) = 6"
proof -
  have l: "length (drift_features example_report) = 6"
    by (simp add: drift_features_def example_report_def example_finding_def)
  show ?thesis
    using generate_drift_summary_lists_first_five[of format_4f "FraudDriftDetector_init None None"
        example_report] l
    by simp
qed

section \<open>Properties of the token functions and the authorization gate\<close>

subsection \<open>The frame of \<open>create_access_token\<close>\<close>

lemma create_access_token_heap:
  assumes d: "data < length h"
    and c: "create_access_token lib SECRET_KEY now h data expires_delta = (res, h')"
  shows "length h' = Suc (length h) \<and> (\<forall>r < length h. h' ! r = h ! r)"
proof -
  have 1: "length (dict_update (h @ [h ! data]) (length h) other) = Suc (length h)" for other
    by (simp add: dict_update_def)
  have 2: "dict_update (h @ [h ! data]) (length h) other ! r = h ! r" if "r < length h" for other r
    using that by (simp add: dict_update_def nth_append)
  show ?thesis using c 1 2
    by (auto simp: create_access_token_def dict_copy_def Let_def nth_append
        split: sum.splits option.splits if_splits)
qed

lemma create_access_token_copy:
  assumes d: "data < length h"
    and c: "create_access_token lib SECRET_KEY now h data expires_delta = (Inr token, h')"
  shows "\<exists>e. h' ! length h = dict_set (h ! data) ''exp'' (JInt e)"
  using c d
  by (auto simp: create_access_token_def dict_copy_def dict_update_def Let_def nth_append
        split: sum.splits option.splits if_splits)

text \<open>
  C9. \<open>create_access_token\<close> leaves its \<open>data\<close> argument unchanged: after the call
  the caller's dictionary has the entries it had before (no \<open>exp\<close> key is added to
  it), as has every other object of the store; the function wrote to a newly allocated
  copy, which for an issued token holds the entries of \<open>data\<close> and the key \<open>exp\<close>.
\<close>

theorem create_access_token_leaves_data:
  assumes "data < length h"
    and "create_access_token lib SECRET_KEY now h data expires_delta = (res, h')"
  shows "h' ! data = h ! data \<and>
         map_of (h' ! data) ''exp'' = map_of (h ! data) ''exp'' \<and>
         (\<forall>r < length h. h' ! r = h ! r) \<and>
         length h' = Suc (length h) \<and>
         (\<forall>token. res = Inr token \<longrightarrow>
            (\<exists>e. map_of (h' ! length h) = (map_of (h ! data))(''exp'' \<mapsto> JInt e)))"
proof -
  note H = create_access_token_heap[OF assms]
  have "\<exists>e. map_of (h' ! length h) = (map_of (h ! data))(''exp'' \<mapsto> JInt e)"
    if "res = Inr token" for token
    using create_access_token_copy[OF assms(1), of lib SECRET_KEY now expires_delta token h']
      assms(2) that by (auto simp: map_of_dict_set)
  then show ?thesis using H assms(1) by auto
qed

theorem create_access_token_leaves_data_witness:
  "snd (create_access_token stub_lib ''k'' 1000 [[(''sub'', JStr ''alice'')]] 0 None) ! 0
     = [(''sub'', JStr ''alice'')] \<and>
   map_of (snd (create_access_token stub_lib ''k'' 1000 [[(''sub'', JStr ''alice'')]] 0 None) ! 0)
     ''exp'' = None \<and>
   length (snd (create_access_token stub_lib ''k'' 1000 [[(''sub'', JStr ''alice'')]] 0 None)) = 2"
  using create_access_token_leaves_data[of 0 "[[(''sub'', JStr ''alice'')]]" stub_lib "''k''" 1000
      None "fst (create_access_token stub_lib ''k'' 1000 [[(''sub'', JStr ''alice'')]] 0 None)"
      "snd (create_access_token stub_lib ''k'' 1000 [[(''sub'', JStr ''alice'')]] 0 None)"]
  by simp

lemma split_on_nonempty: "split_on sep s \<noteq> []"
  by (induction s) (auto split: list.splits)

lemma split_on_none: "sep \<notin> set a \<Longrightarrow> split_on sep a = [a]"
  by (induction a) auto

lemma split_on_two: "sep \<notin> set a \<Longrightarrow> sep \<notin> set b \<Longrightarrow> split_on sep (a @ sep # b) = [a, b]"
  by (induction a) (auto simp: split_on_none)

lemma length_split_on: "length (split_on sep s) = Suc (length (filter (\<lambda>c. c = sep) s))"
  by (induction s) (auto split: list.splits simp: split_on_nonempty)

lemma py_int_gt: "x - 1 < real_of_int (py_int x)"
  unfolding py_int_def by (auto; linarith)

lemma dict_get_dict_set:
  "dict_get (dict_set d k v) k' dflt = (if k' = k then v else dict_get d k' dflt)"
  by (simp add: dict_get_def map_of_dict_set)

subsection \<open>Token round trip\<close>

lemma create_access_token_issues:
  assumes d: "data < length h"
    and r: "- 62135596800 \<le> now + lifetime" "now + lifetime < 253402300800"
    and nz: "lifetime \<noteq> 0"
  shows "\<exists>h'. create_access_token lib SECRET_KEY now h data (Some lifetime) =
     (Inr (urlsafe_b64encode lib (json_dumps lib (issued_claims lib (h ! data) (now + lifetime))) @
           ''.'' @
           sign lib SECRET_KEY
             (urlsafe_b64encode lib (json_dumps lib (issued_claims lib (h ! data) (now + lifetime))))),
      h')"
  using d r nz
  by (simp add: create_access_token_def dict_copy_def dict_update_def datetime_add_def Let_def
      issued_claims_def nth_append)

lemma decode_issued:
  assumes sub: "dict_get d ''sub'' JNull = JStr subject" "subject \<noteq> []"
    and cf: "codec_faithful lib SECRET_KEY (issued_claims lib d expire)"
    and v: "validate_str lib (JStr subject) = Some subject"
  shows "decode_access_token lib SECRET_KEY clock
           (urlsafe_b64encode lib (json_dumps lib (issued_claims lib d expire)) @ ''.'' @
            sign lib SECRET_KEY (urlsafe_b64encode lib (json_dumps lib (issued_claims lib d expire)))) =
         (if real_of_int (py_int (timestamp_float lib expire)) < clock
          then Inl credentials_exception
          else Inr \<lparr> TokenData.username = Some subject, scopes = [] \<rparr>)"
proof -
  let ?c = "issued_claims lib d expire"
  let ?p = "urlsafe_b64encode lib (json_dumps lib ?c)"
  have sp: "split_on CHR ''.'' (?p @ ''.'' @ sign lib SECRET_KEY ?p) = [?p, sign lib SECRET_KEY ?p]"
    using cf split_on_two[of "CHR ''.''" ?p "sign lib SECRET_KEY ?p"]
    by (simp add: codec_faithful_def)
  have b: "urlsafe_b64decode lib ?p = Some (json_dumps lib ?c)" using cf by (simp add: codec_faithful_def)
  have j: "json_loads lib (json_dumps lib ?c) = Some ?c" using cf by (simp add: codec_faithful_def)
  have cl: "check_claims lib clock ?c =
         (if real_of_int (py_int (timestamp_float lib expire)) < clock
          then Inl credentials_exception
          else Inr \<lparr> TokenData.username = Some subject, scopes = [] \<rparr>)"
    using sub v by (simp add: check_claims_def issued_claims_def dict_get_dict_set Let_def)
  show ?thesis
    unfolding decode_access_token_def decode_access_token_try_def sp
    by (simp add: b j cl credentials_exception_def)
qed

lemma py_int_ge_floor: "real_of_int \<lfloor>x\<rfloor> \<le> real_of_int (py_int x)"
  unfolding py_int_def by (auto; linarith)

text \<open>
  C6, as amended. For a claim set with a non-empty subject and a lifetime of at least one
  second, with the expiry inside the range of \<open>datetime\<close>, a token is issued, and
  validating it succeeds and returns exactly the issued subject when the validation
  clock \<open>time.time()\<close> is not past the whole second that follows the issuing clock
  \<open>datetime.now()\<close>, in particular at the same clock reading. The libraries are assumed
  to decode what they encoded for the issued claim set, and the float of the expiry not
  to lie below the expiry's whole second.
\<close>

theorem token_round_trip:
  assumes "data < length h"
    and "dict_get (h ! data) ''sub'' JNull = JStr subject" and "subject \<noteq> []"
    and "1 \<le> lifetime"
    and "- 62135596800 \<le> now + lifetime" and "now + lifetime < 253402300800"
    and "codec_faithful lib SECRET_KEY (issued_claims lib (h ! data) (now + lifetime))"
    and "validate_str lib (JStr subject) = Some subject"
    and "real_of_int \<lfloor>now + lifetime\<rfloor> \<le> timestamp_float lib (now + lifetime)"
    and "clock \<le> real_of_int \<lfloor>now\<rfloor> + 1"
  shows "\<exists>token h'.
           create_access_token lib SECRET_KEY now h data (Some lifetime) = (Inr token, h') \<and>
           decode_access_token lib SECRET_KEY clock token =
             Inr \<lparr> TokenData.username = Some subject, scopes = [] \<rparr>"
proof -
  let ?tok = "urlsafe_b64encode lib (json_dumps lib (issued_claims lib (h ! data) (now + lifetime))) @
           ''.'' @
           sign lib SECRET_KEY
             (urlsafe_b64encode lib (json_dumps lib (issued_claims lib (h ! data) (now + lifetime))))"
  have nz: "lifetime \<noteq> 0" using assms(4) by simp
  obtain h' where c: "create_access_token lib SECRET_KEY now h data (Some lifetime) = (Inr ?tok, h')"
    using create_access_token_issues[OF assms(1) assms(5) assms(6) nz, of lib SECRET_KEY] by auto
  have dec: "decode_access_token lib SECRET_KEY clock ?tok =
             (if real_of_int (py_int (timestamp_float lib (now + lifetime))) < clock
              then Inl credentials_exception
              else Inr \<lparr> TokenData.username = Some subject, scopes = [] \<rparr>)"
    by (rule decode_issued[OF assms(2) assms(3) assms(7) assms(8)])
  have "\<lfloor>now\<rfloor> + 1 \<le> \<lfloor>now + lifetime\<rfloor>"
    using assms(4) by linarith
  then have "real_of_int \<lfloor>now\<rfloor> + 1 \<le> real_of_int \<lfloor>now + lifetime\<rfloor>"
    by linarith
  moreover have "\<lfloor>now + lifetime\<rfloor> \<le> \<lfloor>timestamp_float lib (now + lifetime)\<rfloor>"
    using assms(9) by (simp add: le_floor_iff)
  then have "real_of_int \<lfloor>now + lifetime\<rfloor> \<le> real_of_int \<lfloor>timestamp_float lib (now + lifetime)\<rfloor>"
    by linarith
  moreover note py_int_ge_floor[of "timestamp_float lib (now + lifetime)"]
  ultimately have "\<not> real_of_int (py_int (timestamp_float lib (now + lifetime))) < clock"
    using assms(10) by linarith
  with c dec show ?thesis by auto
qed

theorem token_round_trip_witness:
  "\<exists>token h'.
     create_access_token stub_lib ''k'' 1000 [[(''sub'', JStr ''alice'')]] 0 (Some 1800)
       = (Inr token, h') \<and>
     decode_access_token stub_lib ''k'' 1000 token =
       Inr \<lparr> TokenData.username = Some ''alice'', scopes = [] \<rparr>"
proof -
  have cf: "codec_faithful stub_lib ''k''
      (issued_claims stub_lib [(''sub'', JStr ''alice'')] (1000 + 1800))"
    by (simp add: codec_faithful_def issued_claims_def stub_lib_def stub_json_table_def py_int_def
        sign_def digit_char_def)
  show ?thesis
    using token_round_trip[of 0 "[[(''sub'', JStr ''alice'')]]" "''alice''" 1800 1000 stub_lib
        "''k''" 1000] cf
    by (simp add: dict_get_def stub_lib_def py_int_def)
qed

text \<open>
  The claim as first stated fails for a positive lifetime below one second: issued at
  clock 1000.5 with a lifetime of 0.3 seconds, the token expires at
  \<open>int(1000.8) = 1000\<close>, and validation at the same clock reading rejects it.
\<close>

theorem token_round_trip_counterexample:
  "create_access_token stub_lib ''k'' 1000.5 [[(''sub'', JStr ''alice'')]] 0 (Some 0.3) =
     (Inr ''{sub:alice,exp:1000}.21'',
      [[(''sub'', JStr ''alice'')], [(''sub'', JStr ''alice''), (''exp'', JInt 1000)]]) \<and>
   decode_access_token stub_lib ''k'' 1000.5 ''{sub:alice,exp:1000}.21'' =
     Inl credentials_exception"
  by (simp add: create_access_token_def dict_copy_def dict_update_def datetime_add_def Let_def
      py_int_def stub_lib_def stub_json_table_def sign_def decode_access_token_def
      decode_access_token_try_def check_claims_def dict_get_def credentials_exception_def
      digit_char_def)

subsection \<open>Uniform rejection\<close>

lemma decode_rejection_or_data:
  "decode_access_token lib SECRET_KEY now token = Inl credentials_exception \<or>
   (\<exists>token_data. decode_access_token lib SECRET_KEY now token = Inr token_data)"
  by (cases "decode_access_token_try lib SECRET_KEY now token")
     (simp_all add: decode_access_token_def)

lemma decode_rejects_iff:
  "decode_access_token lib SECRET_KEY now token = Inl credentials_exception \<longleftrightarrow>
   (\<exists>e. decode_access_token_try lib SECRET_KEY now token = Inl e)"
  by (cases "decode_access_token_try lib SECRET_KEY now token")
     (simp_all add: decode_access_token_def)

lemma try_split:
  assumes "split_on CHR ''.'' token = [payload_b64, signature]"
  shows "decode_access_token_try lib SECRET_KEY now token =
     (if signature \<noteq> sign lib SECRET_KEY payload_b64 then Inl credentials_exception
      else (case urlsafe_b64decode lib payload_b64 of
              None \<Rightarrow> Inl ValueError
            | Some raw \<Rightarrow>
                (case json_loads lib raw of
                   None \<Rightarrow> Inl ValueError
                 | Some payload \<Rightarrow> check_claims lib now payload)))"
  using assms by (simp add: decode_access_token_try_def)

lemma try_bad_split:
  assumes "length (split_on CHR ''.'' token) \<noteq> 2"
  shows "decode_access_token_try lib SECRET_KEY now token = Inl ValueError"
proof (cases "split_on CHR ''.'' token")
  case Nil
  then show ?thesis by (simp add: decode_access_token_try_def)
next
  case (Cons a as)
  show ?thesis
  proof (cases as)
    case Nil
    then show ?thesis using Cons by (simp add: decode_access_token_try_def)
  next
    case (Cons b bs)
    then have "bs \<noteq> []" using assms \<open>split_on CHR ''.'' token = a # as\<close> by auto
    then obtain c cs where "bs = c # cs" by (cases bs) auto
    then show ?thesis using Cons \<open>split_on CHR ''.'' token = a # as\<close>
      by (simp add: decode_access_token_try_def)
  qed
qed

text \<open>
  C5. Every failure of token validation is the one rejection: for every token string
  the validator either returns token data or raises exactly
  \<open>credentials_exception\<close>. In particular a separator count other than one, a
  signature mismatch, a payload that base64 or JSON cannot decode, claims that are not
  an object, a missing or empty subject, an expiry that is not a number, an expired
  token and a subject that is not a string all give that same value.
\<close>

theorem decode_access_token_uniform_rejection:
  "(decode_access_token lib SECRET_KEY now token = Inl credentials_exception \<or>
    (\<exists>token_data. decode_access_token lib SECRET_KEY now token = Inr token_data)) \<and>
   (length (filter (\<lambda>c. c = CHR ''.'') token) \<noteq> 1 \<longrightarrow>
      decode_access_token lib SECRET_KEY now token = Inl credentials_exception) \<and>
   (\<forall>payload_b64 signature.
      split_on CHR ''.'' token = [payload_b64, signature] \<longrightarrow>
      (signature \<noteq> sign lib SECRET_KEY payload_b64 \<longrightarrow>
         decode_access_token lib SECRET_KEY now token = Inl credentials_exception) \<and>
      (urlsafe_b64decode lib payload_b64 = None \<longrightarrow>
         decode_access_token lib SECRET_KEY now token = Inl credentials_exception) \<and>
      (\<forall>raw. urlsafe_b64decode lib payload_b64 = Some raw \<longrightarrow>
         (json_loads lib raw = None \<longrightarrow>
            decode_access_token lib SECRET_KEY now token = Inl credentials_exception) \<and>
         (\<forall>payload. json_loads lib raw = Some payload \<longrightarrow>
            ((\<forall>d. payload \<noteq> JDict d) \<longrightarrow>
               decode_access_token lib SECRET_KEY now token = Inl credentials_exception) \<and>
            (\<forall>d. payload = JDict d \<longrightarrow>
               (\<not> truthy (dict_get d ''sub'' JNull) \<longrightarrow>
                  decode_access_token lib SECRET_KEY now token = Inl credentials_exception) \<and>
               (time_greater now (dict_get d ''exp'' (JInt 0)) \<noteq> Inr False \<longrightarrow>
                  decode_access_token lib SECRET_KEY now token = Inl credentials_exception) \<and>
               (validate_str lib (dict_get d ''sub'' JNull) = None \<longrightarrow>
                  decode_access_token lib SECRET_KEY now token = Inl credentials_exception)))))"
proof -
  have 1: "decode_access_token lib SECRET_KEY now token = Inl credentials_exception"
    if "length (filter (\<lambda>c. c = CHR ''.'') token) \<noteq> 1"
    using that try_bad_split[of token lib SECRET_KEY now]
    by (simp add: decode_rejects_iff length_split_on)
  have 2: "(signature \<noteq> sign lib SECRET_KEY payload_b64 \<longrightarrow>
         decode_access_token lib SECRET_KEY now token = Inl credentials_exception) \<and>
      (urlsafe_b64decode lib payload_b64 = None \<longrightarrow>
         decode_access_token lib SECRET_KEY now token = Inl credentials_exception) \<and>
      (\<forall>raw. urlsafe_b64decode lib payload_b64 = Some raw \<longrightarrow>
         (json_loads lib raw = None \<longrightarrow>
            decode_access_token lib SECRET_KEY now token = Inl credentials_exception) \<and>
         (\<forall>payload. json_loads lib raw = Some payload \<longrightarrow>
            ((\<forall>d. payload \<noteq> JDict d) \<longrightarrow>
               decode_access_token lib SECRET_KEY now token = Inl credentials_exception) \<and>
            (\<forall>d. payload = JDict d \<longrightarrow>
               (\<not> truthy (dict_get d ''sub'' JNull) \<longrightarrow>
                  decode_access_token lib SECRET_KEY now token = Inl credentials_exception) \<and>
               (time_greater now (dict_get d ''exp'' (JInt 0)) \<noteq> Inr False \<longrightarrow>
                  decode_access_token lib SECRET_KEY now token = Inl credentials_exception) \<and>
               (validate_str lib (dict_get d ''sub'' JNull) = None \<longrightarrow>
                  decode_access_token lib SECRET_KEY now token = Inl credentials_exception))))"
    if sp: "split_on CHR ''.'' token = [payload_b64, signature]" for payload_b64 signature
  proof -
    have nd: "check_claims lib now payload = Inl AttributeError" if "\<forall>d. payload \<noteq> JDict d" for payload
      using that by (cases payload) (simp_all add: check_claims_def)
    have cc: "\<exists>e. check_claims lib now (JDict d) = Inl e"
      if "\<not> truthy (dict_get d ''sub'' JNull) \<or>
          time_greater now (dict_get d ''exp'' (JInt 0)) \<noteq> Inr False \<or>
          validate_str lib (dict_get d ''sub'' JNull) = None" for d
      using that
      by (cases "time_greater now (dict_get d ''exp'' (JInt 0))")
         (auto simp: check_claims_def Let_def split: option.splits)
    show ?thesis
      unfolding decode_rejects_iff try_split[OF sp]
      using nd cc by (auto split: option.splits)
  qed
  show ?thesis
    using decode_rejection_or_data[of lib SECRET_KEY now token] 1 2 by (intro conjI allI impI) blast+
qed

theorem decode_access_token_uniform_rejection_witness:
  "decode_access_token stub_lib ''k'' 2000 ''no separator'' = Inl credentials_exception \<and>
   decode_access_token stub_lib ''k'' 2000 ''a.b.c'' = Inl credentials_exception \<and>
   decode_access_token stub_lib ''k'' 2000 ''{sub:alice,exp:2800}.99'' = Inl credentials_exception \<and>
   decode_access_token stub_lib ''k'' 2000 ''{sub:bob,exp:2800}.19'' = Inl credentials_exception \<and>
   decode_access_token stub_lib ''k'' 2000 ''{sub:alice,exp:1000}.21'' = Inl credentials_exception"
proof -
  note T = decode_access_token_uniform_rejection[of stub_lib "''k''" 2000]
  have a: "decode_access_token stub_lib ''k'' 2000 ''no separator'' = Inl credentials_exception"
    by (rule T[of "''no separator''", THEN conjunct2, THEN conjunct1, rule_format]) simp
  have b: "decode_access_token stub_lib ''k'' 2000 ''a.b.c'' = Inl credentials_exception"
    by (rule T[of "''a.b.c''", THEN conjunct2, THEN conjunct1, rule_format]) simp
  have c: "decode_access_token stub_lib ''k'' 2000 ''{sub:alice,exp:2800}.99'' = Inl credentials_exception"
    by (rule T[of "''{sub:alice,exp:2800}.99''", THEN conjunct2, THEN conjunct2, rule_format,
          THEN conjunct1, rule_format, of "''{sub:alice,exp:2800}''" "''99''"])
       (simp_all add: sign_def stub_lib_def digit_char_def)
  have d: "decode_access_token stub_lib ''k'' 2000 ''{sub:bob,exp:2800}.19'' = Inl credentials_exception"
    by (rule T[of "''{sub:bob,exp:2800}.19''", THEN conjunct2, THEN conjunct2, rule_format,
          THEN conjunct2, THEN conjunct2, rule_format, THEN conjunct1, rule_format,
          of "''{sub:bob,exp:2800}''" "''19''" "''{sub:bob,exp:2800}''"])
       (simp_all add: stub_lib_def stub_json_table_def)
  have e: "decode_access_token stub_lib ''k'' 2000 ''{sub:alice,exp:1000}.21'' = Inl credentials_exception"
    by (rule T[of "''{sub:alice,exp:1000}.21''", THEN conjunct2, THEN conjunct2, rule_format,
          THEN conjunct2, THEN conjunct2, rule_format, THEN conjunct2, rule_format,
          THEN conjunct2, rule_format, THEN conjunct2, THEN conjunct1, rule_format,
          of "''{sub:alice,exp:1000}''" "''21''" "''{sub:alice,exp:1000}''"
             "JDict [(''sub'', JStr ''alice''), (''exp'', JInt 1000)]"
             "[(''sub'', JStr ''alice''), (''exp'', JInt 1000)]"])
       (simp_all add: stub_lib_def stub_json_table_def dict_get_def)
  show ?thesis using a b c d e by simp
qed

subsection \<open>The API-key path of the authorization gate\<close>

lemma decode_username_Some:
  assumes "decode_access_token lib SECRET_KEY now token = Inr token_data"
  shows "TokenData.username token_data \<noteq> None"
proof -
  have cc: "check_claims lib now payload = Inr td \<Longrightarrow> TokenData.username td \<noteq> None" for payload td
    by (cases payload)
       (auto simp: check_claims_def Let_def split: if_splits sum.splits option.splits)
  have "decode_access_token_try lib SECRET_KEY now token = Inr token_data"
    using assms by (auto simp: decode_access_token_def split: sum.splits)
  then show ?thesis
    using cc
    by (auto simp: decode_access_token_try_def split: list.splits if_splits option.splits)
qed

lemma get_current_user_cases:
  "(\<exists>user. get_current_user lib SECRET_KEY now creds = Inr user \<and> full_name user \<noteq> None) \<or>
   (\<exists>e. get_current_user lib SECRET_KEY now creds = Inl e \<and> is_HTTPException e)"
proof (cases creds)
  case None
  then show ?thesis by (simp add: get_current_user_def not_authenticated_def)
next
  case (Some c)
  show ?thesis
  proof (cases "credentials c = []")
    case True
    then show ?thesis using Some by (simp add: get_current_user_def not_authenticated_def)
  next
    case False
    show ?thesis
    proof (cases "decode_access_token lib SECRET_KEY now (credentials c)")
      case (Inl e)
      then have "e = credentials_exception"
        using decode_rejection_or_data[of lib SECRET_KEY now "credentials c"] by simp
      then show ?thesis using Some False Inl
        by (simp add: get_current_user_def credentials_exception_def)
    next
      case (Inr td)
      then obtain u where "TokenData.username td = Some u"
        using decode_username_Some[OF Inr] by auto
      then show ?thesis using Some False Inr by (simp add: get_current_user_def)
    qed
  qed
qed

lemma verify_api_key_cases:
  "verify_api_key env api_key =
     (if lower (getenv env ''ENABLE_API_KEY_AUTH'' ''false'') = ''true'' \<and>
         truthy_str (env ''API_KEY'') \<and> api_key \<noteq> env ''API_KEY''
      then Inl invalid_api_key else Inr True)"
  by (auto simp: verify_api_key_def Let_def truthy_str_def split: option.splits)

lemma try_api_key_eq:
  "try_api_key env api_key =
     Inr (if truthy_str api_key \<and>
             (lower (getenv env ''ENABLE_API_KEY_AUTH'' ''false'') \<noteq> ''true'' \<or>
              \<not> truthy_str (env ''API_KEY'') \<or> api_key = env ''API_KEY'')
          then Some api_key_user else None)"
  by (auto simp: try_api_key_def verify_api_key_cases invalid_api_key_def)

text \<open>
  C7, as amended. The gate never raises. It resolves to the generic API-key identity
  exactly when no bearer token validates, a non-empty API key is presented, and the key
  check lets it pass: API-key authentication is not enabled, or no key is configured,
  or the presented key equals the configured key.
\<close>

theorem api_key_identity_iff:
  "(\<exists>r. get_current_user_optional lib SECRET_KEY now env creds api_key = Inr r) \<and>
   (get_current_user_optional lib SECRET_KEY now env creds api_key = Inr (Some api_key_user)
      \<longleftrightarrow>
    (creds = None \<or> (\<exists>e. get_current_user lib SECRET_KEY now creds = Inl e)) \<and>
    truthy_str api_key \<and>
    (lower (getenv env ''ENABLE_API_KEY_AUTH'' ''false'') \<noteq> ''true'' \<or>
     \<not> truthy_str (env ''API_KEY'') \<or>
     api_key = env ''API_KEY''))"
proof (cases creds)
  case None
  then show ?thesis by (simp add: get_current_user_optional_def try_api_key_eq)
next
  case (Some c)
  from get_current_user_cases[of lib SECRET_KEY now creds] show ?thesis
  proof
    assume "\<exists>user. get_current_user lib SECRET_KEY now creds = Inr user \<and> full_name user \<noteq> None"
    then obtain user where u: "get_current_user lib SECRET_KEY now creds = Inr user"
      "full_name user \<noteq> None" by blast
    then have "user \<noteq> api_key_user" by (auto simp: api_key_user_def)
    then show ?thesis using Some u by (simp add: get_current_user_optional_def)
  next
    assume "\<exists>e. get_current_user lib SECRET_KEY now creds = Inl e \<and> is_HTTPException e"
    then obtain e where e: "get_current_user lib SECRET_KEY now creds = Inl e" "is_HTTPException e"
      by blast
    then show ?thesis using Some by (simp add: get_current_user_optional_def try_api_key_eq)
  qed
qed

text \<open>
  The claim as first stated fails: with API-key authentication not enabled (an empty
  environment) any non-empty key resolves to the API-key identity; so does a key when
  authentication is enabled and no key is configured.
\<close>

theorem api_key_identity_counterexample:
  "get_current_user_optional stub_lib ''k'' 1000 Map.empty None (Some ''anything'') =
     Inr (Some api_key_user) \<and>
   get_current_user_optional stub_lib ''k'' 1000 [''ENABLE_API_KEY_AUTH'' \<mapsto> ''TRUE''] None
     (Some ''anything'') = Inr (Some api_key_user)"
  by (simp add: get_current_user_optional_def try_api_key_def verify_api_key_def truthy_str_def
      getenv_def lower_def lower_char_def)

theorem api_key_identity_iff_witness:
  "get_current_user_optional stub_lib ''k'' 1000
     [''ENABLE_API_KEY_AUTH'' \<mapsto> ''true'', ''API_KEY'' \<mapsto> ''s3cret'']
     None (Some ''s3cret'') = Inr (Some api_key_user) \<and>
   get_current_user_optional stub_lib ''k'' 1000
     [''ENABLE_API_KEY_AUTH'' \<mapsto> ''true'', ''API_KEY'' \<mapsto> ''s3cret'']
     None (Some ''guess'') \<noteq> Inr (Some api_key_user)"
  using api_key_identity_iff[of stub_lib "''k''" 1000
      "[''ENABLE_API_KEY_AUTH'' \<mapsto> ''true'', ''API_KEY'' \<mapsto> ''s3cret'']" None "Some ''s3cret''"]
    api_key_identity_iff[of stub_lib "''k''" 1000
      "[''ENABLE_API_KEY_AUTH'' \<mapsto> ''true'', ''API_KEY'' \<mapsto> ''s3cret'']" None "Some ''guess''"]
  by (simp add: truthy_str_def getenv_def lower_def lower_char_def)

section \<open>Properties of alert dispatch\<close>

lemma send_email_cases:
  "send_email w env self alert dlog = (ok, l) \<Longrightarrow> l = dlog \<or> l = dlog @ [(EMAIL, alert)]"
  by (auto simp: send_email_def split: if_splits)

text \<open>
  C10. The outcome mapping of \<open>send_alert\<close> has a key exactly for the channels enabled
  at the manager's construction: Slack and Teams when their flag is set and their
  webhook URL is configured and non-empty, email when its flag is set. A disabled
  channel has no key (it is not recorded as \<open>False\<close>); the webhook channel never has a
  key and no delivery on it is attempted; every delivery attempted is on a channel of
  the mapping.
\<close>

theorem send_alert_channels:
  "send_alert w env self title message severity metrics metadata dlog0 = (results, dlog) \<longrightarrow>
   map fst results =
     (if slack_enabled self \<and> truthy_str (slack_webhook self) then [SLACK] else []) @
     (if teams_enabled self \<and> truthy_str (teams_webhook self) then [TEAMS] else []) @
     (if email_enabled self then [EMAIL] else []) \<and>
   WEBHOOK \<notin> fst ` set results \<and>
   (\<exists>attempted. dlog = dlog0 @ attempted \<and>
      WEBHOOK \<notin> fst ` set attempted \<and> fst ` set attempted \<subseteq> fst ` set results) \<and>
   slack_enabled (AlertManager_init env0) = (lower (getenv env0 ''SLACK_ENABLED'' ''false'') = ''true'') \<and>
   teams_enabled (AlertManager_init env0) = (lower (getenv env0 ''TEAMS_ENABLED'' ''false'') = ''true'') \<and>
   email_enabled (AlertManager_init env0) = (lower (getenv env0 ''EMAIL_ENABLED'' ''false'') = ''true'') \<and>
   slack_webhook (AlertManager_init env0) = env0 ''SLACK_WEBHOOK_URL'' \<and>
   teams_webhook (AlertManager_init env0) = env0 ''TEAMS_WEBHOOK_URL''"
proof -
  have init: "slack_enabled (AlertManager_init env0) = (lower (getenv env0 ''SLACK_ENABLED'' ''false'') = ''true'') \<and>
   teams_enabled (AlertManager_init env0) = (lower (getenv env0 ''TEAMS_ENABLED'' ''false'') = ''true'') \<and>
   email_enabled (AlertManager_init env0) = (lower (getenv env0 ''EMAIL_ENABLED'' ''false'') = ''true'') \<and>
   slack_webhook (AlertManager_init env0) = env0 ''SLACK_WEBHOOK_URL'' \<and>
   teams_webhook (AlertManager_init env0) = env0 ''TEAMS_WEBHOOK_URL''"
    by (simp add: AlertManager_init_def)
  have main: "map fst results =
     (if slack_enabled self \<and> truthy_str (slack_webhook self) then [SLACK] else []) @
     (if teams_enabled self \<and> truthy_str (teams_webhook self) then [TEAMS] else []) @
     (if email_enabled self then [EMAIL] else []) \<and>
   WEBHOOK \<notin> fst ` set results \<and>
   (\<exists>attempted. dlog = dlog0 @ attempted \<and>
      WEBHOOK \<notin> fst ` set attempted \<and> fst ` set attempted \<subseteq> fst ` set results)"
    if s: "send_alert w env self title message severity metrics metadata dlog0 = (results, dlog)"
  proof -
    define alert where "alert = Alert_post_init (clock_text w)
                    \<lparr> alert_title = title, alert_message = message, alert_severity = severity,
                      alert_timestamp = None, alert_metrics = metrics,
                      alert_metadata = metadata \<rparr>"
    define S where "S = (slack_enabled self \<and> truthy_str (slack_webhook self))"
    define T where "T = (teams_enabled self \<and> truthy_str (teams_webhook self))"
    define r1 where "r1 = (if S then [(SLACK, accepts w SLACK alert)] else [])"
    define l1 where "l1 = dlog0 @ (if S then [(SLACK, alert)] else [])"
    define r2 where "r2 = r1 @ (if T then [(TEAMS, accepts w TEAMS alert)] else [])"
    define l2 where "l2 = l1 @ (if T then [(TEAMS, alert)] else [])"
    have d2: "dict_set r2 EMAIL ok = r2 @ [(EMAIL, ok)]" for ok
      by (simp add: r2_def r1_def)
    have eq: "send_alert w env self title message severity metrics metadata dlog0 =
        (if email_enabled self
         then (r2 @ [(EMAIL, fst (send_email w env self alert l2))], snd (send_email w env self alert l2))
         else (r2, l2))"
      unfolding send_alert_def Let_def alert_def[symmetric] S_def[symmetric] T_def[symmetric]
      by (cases S; cases T)
         (simp_all add: send_slack_def send_teams_def r2_def r1_def l2_def l1_def split: prod.splits)
    have core: "map fst results =
       (if S then [SLACK] else []) @ (if T then [TEAMS] else []) @
       (if email_enabled self then [EMAIL] else []) \<and>
       WEBHOOK \<notin> fst ` set results \<and>
       (\<exists>attempted. dlog = dlog0 @ attempted \<and>
          WEBHOOK \<notin> fst ` set attempted \<and> fst ` set attempted \<subseteq> fst ` set results)"
    proof (cases "email_enabled self")
      case False
      then have "results = r2" "dlog = l2" using s eq by simp_all
      then show ?thesis using False
        by (cases S; cases T) (simp_all add: r2_def r1_def l2_def l1_def)
    next
      case True
      then have r: "results = r2 @ [(EMAIL, fst (send_email w env self alert l2))]"
        and l: "dlog = snd (send_email w env self alert l2)" using s eq by simp_all
      have "dlog = l2 \<or> dlog = l2 @ [(EMAIL, alert)]"
        using send_email_cases[of w env self alert l2 "fst (send_email w env self alert l2)" dlog] l
        by simp
      then show ?thesis
      proof
        assume "dlog = l2"
        then show ?thesis using True r
          by (cases S; cases T) (simp_all add: r2_def r1_def l2_def l1_def)
      next
        assume "dlog = l2 @ [(EMAIL, alert)]"
        then show ?thesis using True r
          by (cases S; cases T) (simp_all add: r2_def r1_def l2_def l1_def)
      qed
    qed
    show ?thesis using core unfolding S_def T_def .
  qed
  show ?thesis using init main by blast
qed

theorem send_alert_channels_witness:
  "map fst (fst (send_alert stub_world example_env (AlertManager_init example_env)
      ''Drift'' ''PSI above threshold'' WARNING None None [])) = [SLACK, EMAIL]"
proof -
  obtain results dlog where s: "send_alert stub_world example_env (AlertManager_init example_env)
      ''Drift'' ''PSI above threshold'' WARNING None None [] = (results, dlog)"
    by (cases "send_alert stub_world example_env (AlertManager_init example_env)
      ''Drift'' ''PSI above threshold'' WARNING None None []") blast
  have "map fst results = [SLACK, EMAIL]"
    using send_alert_channels[of stub_world example_env "AlertManager_init example_env"
      "''Drift''" "''PSI above threshold''" WARNING None None "[]" results dlog example_env] s
    by (simp add: example_env_def getenv_def lower_def lower_char_def truthy_str_def)
  then show ?thesis using s by simp
qed

end
